theory Spec2Isabelle
  imports Main "HOL-Library.Word"
begin

unbundle bit_operations_syntax

section \<open>MiniStruct: schema compiler and binary codec\<close>

text \<open>
  A shallow embedding of class \<open>MiniStruct\<close> of \<open>src/structExt.js\<close> (the first class of
  the file): \<open>parseSchema\<close>, \<open>parseEnumBody\<close>, \<open>parseStructBody\<close>,
  \<open>validateValueForField\<close>, the varint, fixed-width and float helpers, \<open>encode\<close> and
  \<open>decode\<close>.

  Conventions of the embedding.
  \<^item> A JavaScript number is \<open>JNum n\<close> when it is integral (\<open>Number.isInteger\<close>) and
    \<open>JFloat w\<close>, with \<open>w\<close> its IEEE-754 binary64 bit pattern, otherwise (this covers the
    infinities and NaN). Minus zero is identified with zero.
  \<^item> A JavaScript string is the \<open>string\<close> of its UTF-8 bytes, so that \<open>TextEncoder\<close>
    only reads the bytes off; strings with lone surrogates have no representation.
  \<^item> A plain object is an association list in insertion order; only own properties are
    looked up, so members inherited from \<open>Object.prototype\<close> (a field or a type called
    \<open>toString\<close>, \<open>constructor\<close>, ...) are outside the model.
  \<^item> A \<open>Uint8Array\<close> is a byte list that owns its buffer (\<open>byteOffset = 0\<close>); the read
    cursor of \<open>decode\<close> is an \<open>int\<close>, since a length prefix read from the wire may be
    negative.
  \<^item> Every \<open>throw\<close> of the source is a value \<open>Inl e\<close> of the result type.
  \<^item> \<open>JSON.stringify\<close>, \<open>JSON.parse\<close> and \<open>Number\<close> (on the text of a declared bound)
    are functions of the host, not of the repository: the model takes them as parameters.
\<close>

subsection \<open>Values, bytes and errors\<close>

type_synonym byte = "8 word"

datatype jsval =
    JUndefined
  | JNull
  | JBool bool
  | JNum int
  | JFloat "64 word"
  | JStr string
  | JArr "jsval list"
  | JObj "(string \<times> jsval) list"

type_synonym jsobj = "(string \<times> jsval) list"

datatype jstype = TyUndefined | TyBoolean | TyNumber | TyString | TyObject

fun typeof :: "jsval \<Rightarrow> jstype" where
  "typeof JUndefined = TyUndefined"
| "typeof JNull = TyObject"
| "typeof (JBool _) = TyBoolean"
| "typeof (JNum _) = TyNumber"
| "typeof (JFloat _) = TyNumber"
| "typeof (JStr _) = TyString"
| "typeof (JArr _) = TyObject"
| "typeof (JObj _) = TyObject"

text \<open>\<open>Number.isInteger(value)\<close>.\<close>

fun isInteger :: "jsval \<Rightarrow> bool" where
  "isInteger (JNum _) = True"
| "isInteger _ = False"

text \<open>
  The errors the source throws. All of them are plain \<open>Error\<close> objects told apart by their
  message; \<open>DataViewRangeError\<close> is the \<open>RangeError\<close> of the \<open>DataView\<close> constructor.
  \<open>AtField e s f\<close> is the error \<open>parseStructBody\<close> rethrows with the suffix
  \<open>(field s.f)\<close>.
\<close>

datatype error =
    InvalidIntegerRange string
  | OutsideIntrinsicBounds string int int int int
  | AtField error string string
  | TypeViolation string
  | UnknownType string string
  | UnknownStruct string
  | OutOfDeclaredRange string
  | UnsupportedWidth nat
  | DataViewRangeError

text \<open>\<open>obj[key]\<close> on own properties, and the assignment \<open>obj[key] = v\<close>.\<close>

definition js_get :: "jsobj \<Rightarrow> string \<Rightarrow> jsval" where
  "js_get ob k = (case map_of ob k of None \<Rightarrow> JUndefined | Some v \<Rightarrow> v)"

fun js_set :: "string \<Rightarrow> jsval \<Rightarrow> jsobj \<Rightarrow> jsobj" where
  "js_set k v [] = [(k, v)]"
| "js_set k v ((k', v') # ob) = (if k' = k then (k, v) # ob else (k', v') # js_set k v ob)"

text \<open>
  \<open>buf.slice(start, end)\<close> of a typed array: a negative index counts from the end, both
  indices are clamped to the array, and an end before the start gives the empty array.
\<close>

definition rel_index :: "nat \<Rightarrow> int \<Rightarrow> nat" where
  "rel_index len i = (if i < 0 then nat (max (int len + i) 0) else nat (min i (int len)))"

definition js_slice :: "'a list \<Rightarrow> int \<Rightarrow> int \<Rightarrow> 'a list" where
  "js_slice buf start end' =
     (let k = rel_index (length buf) start; final = rel_index (length buf) end'
      in take (final - k) (drop k buf))"

subsection \<open>Variable-length integers\<close>

text \<open>
  \<open>encodeVarint\<close>: \<open>num & 0x7f\<close> keeps the low seven bits, \<open>num >>>= 7\<close> first reduces the
  number to 32 bits (unsigned); \<open>Uint8Array.from\<close> reduces the last element modulo 256.
\<close>

function encodeVarint :: "int \<Rightarrow> byte list" where
  "encodeVarint num =
     (if num > 127 then word_of_int (num mod 128 + 128) # encodeVarint ((num mod 2 ^ 32) div 128)
      else [word_of_int num])"
  by pat_completeness auto
termination
proof (relation "measure nat")
  show "wf (measure nat)" by simp
next
  fix num :: int
  assume "127 < num"
  have "num mod 2 ^ 32 \<le> num" using \<open>127 < num\<close> by (simp add: zmod_le_nonneg_dividend)
  moreover have "0 \<le> num mod 2 ^ 32" by simp
  ultimately have "(num mod 2 ^ 32) div 128 < num" using \<open>127 < num\<close> by linarith
  moreover have "0 \<le> (num mod 2 ^ 32) div 128" by simp
  ultimately show "((num mod 2 ^ 32) div 128, num) \<in> measure nat" by simp
qed

text \<open>
  \<open>decodeVarint\<close>: an index outside the array reads \<open>undefined\<close>, whose bits are all zero,
  so the loop stops there. \<open><<\<close> shifts by the count modulo 32 and \<open>|=\<close> keeps a signed
  32-bit integer.
\<close>

function decodeVarint_loop :: "byte list \<Rightarrow> 32 word \<Rightarrow> nat \<Rightarrow> int \<Rightarrow> 32 word \<times> int" where
  "decodeVarint_loop buf num shift pos =
     (if 0 \<le> pos \<and> pos < int (length buf) then
        (let b = buf ! nat pos;
             num' = num OR push_bit (shift mod 32) (ucast (b AND 0x7f))
         in if b AND 0x80 = 0 then (num', pos + 1)
            else decodeVarint_loop buf num' (shift + 7) (pos + 1))
      else (num, pos + 1))"
  by pat_completeness auto
termination
  by (relation "measure (\<lambda>(buf, num, shift, pos). nat (int (length buf) - pos))") auto

definition decodeVarint :: "byte list \<Rightarrow> int \<Rightarrow> int \<times> int" where
  "decodeVarint buf offset =
     (case decodeVarint_loop buf 0 0 offset of (num, pos) \<Rightarrow> (sint num, pos))"

subsection \<open>Fixed-width integers\<close>

text \<open>The static table \<open>INT_TYPES\<close>: signedness and width of each integer keyword.\<close>

definition INT_TYPES :: "string \<Rightarrow> (bool \<times> nat) option" where
  "INT_TYPES n =
     (if n = ''int8'' then Some (True, 8)
      else if n = ''uint8'' then Some (False, 8)
      else if n = ''int16'' then Some (True, 16)
      else if n = ''uint16'' then Some (False, 16)
      else if n = ''int32'' then Some (True, 32)
      else if n = ''uint32'' then Some (False, 32)
      else if n = ''int'' then Some (True, 32)
      else None)"

definition intrinsicBoundsForInt :: "string \<Rightarrow> (int \<times> int) option" where
  "intrinsicBoundsForInt typeName =
     (case INT_TYPES typeName of
        None \<Rightarrow> None
      | Some (sg, bits) \<Rightarrow>
          if sg then Some (- (2 ^ (bits - 1)), 2 ^ (bits - 1) - 1)
          else Some (0, 2 ^ bits - 1))"

definition validateRangeAgainstIntrinsic :: "string \<Rightarrow> int \<Rightarrow> int \<Rightarrow> error + bool" where
  "validateRangeAgainstIntrinsic typeName rangeMin rangeMax =
     (case intrinsicBoundsForInt typeName of
        None \<Rightarrow> Inr True
      | Some (iMin, iMax) \<Rightarrow>
          if rangeMin < iMin \<or> rangeMax > iMax
          then Inl (OutsideIntrinsicBounds typeName rangeMin rangeMax iMin iMax)
          else Inr True)"

text \<open>
  \<open>INT_TYPES[typeName] || INT_TYPES['int']\<close>, as \<open>encode\<close> and \<open>decode\<close> look the width up.
  The result is never falsy, which leaves the varint fallback of both unreachable.
\<close>

definition int_info :: "string \<Rightarrow> bool \<times> nat" where
  "int_info typeName = (case INT_TYPES typeName of Some i \<Rightarrow> i | None \<Rightarrow> (True, 32))"

text \<open>The \<open>n\<close> low bytes of an integer, least significant first, and their value.\<close>

fun le_bytes :: "nat \<Rightarrow> int \<Rightarrow> byte list" where
  "le_bytes 0 v = []"
| "le_bytes (Suc n) v = word_of_int v # le_bytes n (v div 256)"

fun le_value :: "byte list \<Rightarrow> int" where
  "le_value [] = 0"
| "le_value (b # bs) = uint b + 256 * le_value bs"

text \<open>
  \<open>writeFixedInt\<close>: the setters of \<open>DataView\<close> reduce the value modulo \<open>2 ^ bits\<close>, so
  the signed and the unsigned setter store the same bytes.
\<close>

definition writeFixedInt :: "int \<Rightarrow> nat \<Rightarrow> bool \<Rightarrow> error + byte list" where
  "writeFixedInt v bits sg =
     (if bits = 8 then Inr (le_bytes 1 v)
      else if bits = 16 then Inr (le_bytes 2 v)
      else if bits = 32 then Inr (le_bytes 4 v)
      else Inl (UnsupportedWidth bits))"

text \<open>
  \<open>new DataView(buf.buffer, buf.byteOffset + pos, byteLen)\<close> throws a \<open>RangeError\<close> when
  the offset is negative or the view does not fit in the buffer.
\<close>

definition dataView :: "byte list \<Rightarrow> int \<Rightarrow> nat \<Rightarrow> error + byte list" where
  "dataView buf pos byteLen =
     (if pos < 0 \<or> pos + int byteLen > int (length buf) then Inl DataViewRangeError
      else Inr (take byteLen (drop (nat pos) buf)))"

definition readFixedInt :: "byte list \<Rightarrow> int \<Rightarrow> nat \<Rightarrow> bool \<Rightarrow> error + (jsval \<times> int)" where
  "readFixedInt buf pos bits sg =
     (let byteLen = bits div 8 in
      case dataView buf pos byteLen of
        Inl e \<Rightarrow> Inl e
      | Inr dv \<Rightarrow>
          if bits = 8 \<or> bits = 16 \<or> bits = 32 then
            (let u = le_value dv;
                 v = (if sg \<and> u \<ge> 2 ^ (bits - 1) then u - 2 ^ bits else u)
             in Inr (JNum v, pos + int byteLen))
          else Inl (UnsupportedWidth bits))"

subsection \<open>Floats\<close>

text \<open>
  The conversions between the integers and the binary64 patterns, and between binary64
  and binary32, that \<open>DataView\<close> performs: round to nearest, ties to even. Every NaN is
  written as the quiet NaN with an empty payload.
\<close>

fun bitlen :: "nat \<Rightarrow> nat" where
  "bitlen n = (if n = 0 then 0 else Suc (bitlen (n div 2)))"

definition round_shift :: "nat \<Rightarrow> nat \<Rightarrow> nat" where
  "round_shift a sh =
     (if sh = 0 then a
      else let q = a div 2 ^ sh; r = a mod 2 ^ sh; half = 2 ^ (sh - 1)
           in if r > half \<or> (r = half \<and> odd q) then q + 1 else q)"

definition f64_of_int :: "int \<Rightarrow> 64 word" where
  "f64_of_int n =
     (if n = 0 then 0
      else let a = nat \<bar>n\<bar>; k = bitlen a - 1;
               sig = (if k \<le> 52 then a * 2 ^ (52 - k) else round_shift a (k - 52));
               raw = (k + 1022) * 2 ^ 52 + sig;
               mag = (if raw \<ge> 2047 * 2 ^ 52 then 2047 * 2 ^ 52 else raw)
           in word_of_nat (mag + (if n < 0 then 2 ^ 63 else 0)))"

definition int_of_f64 :: "64 word \<Rightarrow> int option" where
  "int_of_f64 w =
     (let u = unat w; e = (u div 2 ^ 52) mod 2048; m = u mod 2 ^ 52;
          sg = (if u div 2 ^ 63 = 1 then - 1 else 1 :: int); sig = 2 ^ 52 + m
      in if e = 2047 then None
         else if e = 0 then (if m = 0 then Some 0 else None)
         else if e \<ge> 1075 then Some (sg * int (sig * 2 ^ (e - 1075)))
         else if sig mod 2 ^ (1075 - e) = 0 then Some (sg * int (sig div 2 ^ (1075 - e)))
         else None)"

definition f32_of_f64 :: "64 word \<Rightarrow> 32 word" where
  "f32_of_f64 w =
     (let u = unat w; e = (u div 2 ^ 52) mod 2048; m = u mod 2 ^ 52; sig = 2 ^ 52 + m;
          mag =
            (if e = 2047 then (if m = 0 then 255 * 2 ^ 23 else 255 * 2 ^ 23 + 2 ^ 22)
             else if e = 0 then 0
             else if e \<ge> 897 then
               (let raw = (e - 897) * 2 ^ 23 + round_shift sig 29
                in if raw \<ge> 255 * 2 ^ 23 then 255 * 2 ^ 23 else raw)
             else round_shift sig (926 - e))
      in word_of_nat (mag + (u div 2 ^ 63) * 2 ^ 31))"

definition f64_of_f32 :: "32 word \<Rightarrow> 64 word" where
  "f64_of_f32 w =
     (let u = unat w; e = (u div 2 ^ 23) mod 256; m = u mod 2 ^ 23;
          mag =
            (if e = 255 then (if m = 0 then 2047 * 2 ^ 52 else 2047 * 2 ^ 52 + 2 ^ 51)
             else if e = 0 then
               (if m = 0 then 0
                else let k = bitlen m - 1 in (k + 874) * 2 ^ 52 + (m * 2 ^ (52 - k) - 2 ^ 52))
             else (e + 896) * 2 ^ 52 + m * 2 ^ 29)
      in word_of_nat (mag + (u div 2 ^ 31) * 2 ^ 63))"

text \<open>
  The bits of a number, and the number of a bit pattern. \<open>encode\<close> writes a float after
  \<open>validateValueForField\<close> has admitted the value as a number, so the last equation of
  \<open>number_bits\<close> (NaN, which is what \<open>ToNumber\<close> gives \<open>undefined\<close>) is not reached by it.
\<close>

fun number_bits :: "jsval \<Rightarrow> 64 word" where
  "number_bits (JNum n) = f64_of_int n"
| "number_bits (JFloat w) = w"
| "number_bits _ = 0x7FF8000000000000"

definition number_of_bits :: "64 word \<Rightarrow> jsval" where
  "number_of_bits w = (case int_of_f64 w of Some n \<Rightarrow> JNum n | None \<Rightarrow> JFloat w)"

definition writeFloat32 :: "jsval \<Rightarrow> byte list" where
  "writeFloat32 val = le_bytes 4 (uint (f32_of_f64 (number_bits val)))"

definition writeFloat64 :: "jsval \<Rightarrow> byte list" where
  "writeFloat64 val = le_bytes 8 (uint (number_bits val))"

definition readFloat32 :: "byte list \<Rightarrow> int \<Rightarrow> error + (jsval \<times> int)" where
  "readFloat32 buf pos =
     (case dataView buf pos 4 of
        Inl e \<Rightarrow> Inl e
      | Inr dv \<Rightarrow> Inr (number_of_bits (f64_of_f32 (word_of_int (le_value dv))), pos + 4))"

definition readFloat64 :: "byte list \<Rightarrow> int \<Rightarrow> error + (jsval \<times> int)" where
  "readFloat64 buf pos =
     (case dataView buf pos 8 of
        Inl e \<Rightarrow> Inl e
      | Inr dv \<Rightarrow> Inr (number_of_bits (word_of_int (le_value dv)), pos + 8))"

subsection \<open>Text\<close>

text \<open>
  \<open>new TextEncoder().encode(s)\<close> reads the UTF-8 bytes of the string.
  \<open>new TextDecoder().decode(bytes)\<close> is the UTF-8 decoder of the Encoding standard in its
  default mode: a leading byte order mark is dropped, and every maximal ill-formed
  subsequence becomes U+FFFD (bytes EF BF BD); it never throws. The state is the number
  of continuation bytes still needed, the bounds of the next one and the bytes of the
  sequence read so far.
\<close>

definition TextEncoder_encode :: "string \<Rightarrow> byte list" where
  "TextEncoder_encode s = map (\<lambda>c. word_of_nat (of_char c)) s"

definition replacement :: "byte list" where
  "replacement = [0xEF, 0xBF, 0xBD]"

type_synonym utf8_state = "nat \<times> nat \<times> nat \<times> byte list"

definition utf8_lead :: "byte \<Rightarrow> byte list \<times> utf8_state" where
  "utf8_lead b =
     (let v = unat b in
      if v \<le> 0x7F then ([b], (0, 0x80, 0xBF, []))
      else if 0xC2 \<le> v \<and> v \<le> 0xDF then ([], (1, 0x80, 0xBF, [b]))
      else if 0xE0 \<le> v \<and> v \<le> 0xEF then
        ([], (2, if v = 0xE0 then 0xA0 else 0x80, if v = 0xED then 0x9F else 0xBF, [b]))
      else if 0xF0 \<le> v \<and> v \<le> 0xF4 then
        ([], (3, if v = 0xF0 then 0x90 else 0x80, if v = 0xF4 then 0x8F else 0xBF, [b]))
      else (replacement, (0, 0x80, 0xBF, [])))"

fun utf8_decode :: "utf8_state \<Rightarrow> byte list \<Rightarrow> byte list" where
  "utf8_decode (needed, lo, hi, seen) [] = (if needed \<noteq> 0 then replacement else [])"
| "utf8_decode (needed, lo, hi, seen) (b # bs) =
     (if needed = 0 then
        (case utf8_lead b of (out, st) \<Rightarrow> out @ utf8_decode st bs)
      else if unat b < lo \<or> hi < unat b then
        (case utf8_lead b of (out, st) \<Rightarrow> replacement @ out @ utf8_decode st bs)
      else if needed = 1 then seen @ [b] @ utf8_decode (0, 0x80, 0xBF, []) bs
      else utf8_decode (needed - 1, 0x80, 0xBF, seen @ [b]) bs)"

definition TextDecoder_decode :: "byte list \<Rightarrow> string" where
  "TextDecoder_decode buf =
     (let body = (if take 3 buf = [0xEF, 0xBB, 0xBF] then drop 3 buf else buf)
      in map (\<lambda>b. char_of (unat b)) (utf8_decode (0, 0x80, 0xBF, []) body))"

subsection \<open>The compiled schema\<close>

text \<open>
  A field type is either the object \<open>{prim: 'int', name, range}\<close> that \<open>parseStructBody\<close>
  builds for an integer keyword, or the raw type token. The member \<open>localEnums\<close> that
  each field also carries is the table of its struct and is read from the struct only.
\<close>

datatype ftype = IntType string "(int \<times> int) option" | Raw string

record field =
  ftype :: ftype
  fname :: string
  fdefault :: "string option"

record enumdef =
  nameToVal :: "string \<rightharpoonup> int"
  valToName :: "int \<rightharpoonup> string"

record structdef =
  sfields :: "field list"
  localEnums :: "string \<rightharpoonup> enumdef"

record schema =
  structs :: "string \<rightharpoonup> structdef"
  enums :: "string \<rightharpoonup> enumdef"

record host =
  JSON_stringify :: "jsval \<Rightarrow> string"
  JSON_parse :: "string \<Rightarrow> jsval option"
  Number :: "string \<Rightarrow> jsval"

text \<open>\<open>struct.localEnums[t] || this.enums[t]\<close>.\<close>

definition find_enum :: "schema \<Rightarrow> structdef \<Rightarrow> string \<Rightarrow> enumdef option" where
  "find_enum d st t = (case localEnums st t of Some e \<Rightarrow> Some e | None \<Rightarrow> enums d t)"

subsection \<open>Validation\<close>

text \<open>
  The enum check, which the source writes out twice (local table, then global table):
  a string must be a key of \<open>nameToVal\<close>, a number a key of \<open>valToName\<close>.
\<close>

definition validate_enum :: "enumdef \<Rightarrow> jsval \<Rightarrow> string \<Rightarrow> error + bool" where
  "validate_enum e v path =
     (case v of
        JStr s \<Rightarrow> if nameToVal e s = None then Inl (TypeViolation path) else Inr True
      | JNum n \<Rightarrow> if valToName e n = None then Inl (TypeViolation path) else Inr True
      | JFloat w \<Rightarrow> Inl (TypeViolation path)
      | _ \<Rightarrow> Inl (TypeViolation path))"

definition validateValueForField ::
  "schema \<Rightarrow> ftype \<Rightarrow> jsval \<Rightarrow> string \<Rightarrow> (string \<rightharpoonup> enumdef) \<Rightarrow> error + bool" where
  "validateValueForField d fieldType v path lenums =
     (case fieldType of
        IntType tn rng \<Rightarrow>
          (case v of
             JNum n \<Rightarrow>
               (case rng of
                  Some (rmin, rmax) \<Rightarrow>
                    if n < rmin \<or> n > rmax then Inl (TypeViolation path) else Inr True
                | None \<Rightarrow>
                    (case intrinsicBoundsForInt tn of
                       Some (iMin, iMax) \<Rightarrow>
                         if n < iMin \<or> n > iMax then Inl (TypeViolation path) else Inr True
                     | None \<Rightarrow> Inr True))
           | _ \<Rightarrow> Inl (TypeViolation path))
      | Raw t \<Rightarrow>
          if t = ''int'' then (if \<not> isInteger v then Inl (TypeViolation path) else Inr True)
          else if t = ''float'' \<or> t = ''float32'' \<or> t = ''float64'' then
            (if typeof v \<noteq> TyNumber then Inl (TypeViolation path) else Inr True)
          else if t = ''bool'' then
            (if typeof v \<noteq> TyBoolean then Inl (TypeViolation path) else Inr True)
          else if t = ''string'' then
            (if typeof v \<noteq> TyString then Inl (TypeViolation path) else Inr True)
          else if t = ''any'' then Inr True
          else (case lenums t of
                  Some e \<Rightarrow> validate_enum e v path
                | None \<Rightarrow>
                    (case enums d t of
                       Some e \<Rightarrow> validate_enum e v path
                     | None \<Rightarrow>
                         (case structs d t of
                            Some st \<Rightarrow>
                              (case v of JObj ob \<Rightarrow> Inr True | _ \<Rightarrow> Inl (TypeViolation path))
                          | None \<Rightarrow> Inl (UnknownType t path)))))"

subsection \<open>Encoding\<close>

text \<open>\<open>obj[field.name] ?? field.default\<close>: an absent or \<open>null\<close> member gives way to the
  default literal, which the parser kept as a string.\<close>

definition default_value :: "field \<Rightarrow> jsval" where
  "default_value f = (case fdefault f of None \<Rightarrow> JUndefined | Some s \<Rightarrow> JStr s)"

definition field_value :: "jsobj \<Rightarrow> field \<Rightarrow> jsval" where
  "field_value ob f =
     (case js_get ob (fname f) of
        JUndefined \<Rightarrow> default_value f
      | JNull \<Rightarrow> default_value f
      | v \<Rightarrow> v)"

text \<open>
  The branches of \<open>encode\<close> that do not recurse, in the order of the source; \<open>None\<close> when
  none of them applies. \<open>encode\<close> runs them after \<open>validateValueForField\<close> has accepted the
  value, so the value has the shape its branch expects; for a value of another shape the
  model repeats the error of the validator.
\<close>

definition encode_scalar ::
  "host \<Rightarrow> schema \<Rightarrow> structdef \<Rightarrow> field \<Rightarrow> jsval \<Rightarrow> string \<Rightarrow> (error + byte list) option" where
  "encode_scalar h d st f v path =
     (case ftype f of
        IntType tn rng \<Rightarrow>
          (case v of
             JNum n \<Rightarrow>
               (case rng of
                  Some (rmin, rmax) \<Rightarrow>
                    if n < rmin \<or> n > rmax then Some (Inl (OutOfDeclaredRange (fname f)))
                    else (case int_info tn of (sg, bits) \<Rightarrow> Some (writeFixedInt n bits sg))
                | None \<Rightarrow> (case int_info tn of (sg, bits) \<Rightarrow> Some (writeFixedInt n bits sg)))
           | _ \<Rightarrow> Some (Inl (TypeViolation path)))
      | Raw t \<Rightarrow>
          if t = ''int'' then
            (case v of
               JNum n \<Rightarrow> (case int_info ''int'' of (sg, bits) \<Rightarrow> Some (writeFixedInt n bits sg))
             | _ \<Rightarrow> Some (Inl (TypeViolation path)))
          else if t = ''string'' then
            (case v of
               JStr s \<Rightarrow>
                 (let enc = TextEncoder_encode s
                  in Some (Inr (encodeVarint (int (length enc)) @ enc)))
             | _ \<Rightarrow> Some (Inl (TypeViolation path)))
          else if t = ''any'' then
            (let enc = TextEncoder_encode (JSON_stringify h v)
             in Some (Inr (encodeVarint (int (length enc)) @ enc)))
          else if t = ''bool'' then
            (case v of
               JBool b \<Rightarrow> Some (Inr [if b then 1 else 0])
             | _ \<Rightarrow> Some (Inl (TypeViolation path)))
          else if t = ''float'' \<or> t = ''float64'' then Some (Inr (writeFloat64 v))
          else if t = ''float32'' then Some (Inr (writeFloat32 v))
          else (case find_enum d st t of
                  Some e \<Rightarrow>
                    (case v of
                       JStr s \<Rightarrow>
                         (case nameToVal e s of
                            Some num \<Rightarrow> Some (Inr (encodeVarint num))
                          | None \<Rightarrow> Some (Inl (TypeViolation path)))
                     | JNum num \<Rightarrow> Some (Inr (encodeVarint num))
                     | _ \<Rightarrow> Some (Inl (TypeViolation path)))
                | None \<Rightarrow> None))"

text \<open>\<open>this.structs[field.type]\<close>, the last branch of \<open>encode\<close> and of \<open>decode\<close>.\<close>

definition struct_ref :: "schema \<Rightarrow> field \<Rightarrow> (string \<times> structdef) option" where
  "struct_ref d f =
     (case ftype f of
        IntType tn rng \<Rightarrow> None
      | Raw t \<Rightarrow> (case structs d t of None \<Rightarrow> None | Some st \<Rightarrow> Some (t, st)))"

lemma size_map_of:
  "map_of ob k = Some v \<Longrightarrow> size v < size (JObj ob)"
  by (induction ob) (auto split: if_splits)

lemma size_field_value:
  "JObj ob' = field_value ob f \<Longrightarrow>
   size_list (size_prod (\<lambda>x. 0) size) ob' < size_list (size_prod (\<lambda>x. 0) size) ob"
  by (auto simp: field_value_def js_get_def default_value_def
      split: option.splits jsval.splits dest: size_map_of)

text \<open>
  The loop of \<open>encode\<close> over the fields of a struct. A field of struct type is encoded
  by the call \<open>this.encode(field.type, val)\<close> on the member, and framed by its length.
\<close>

function encode_fields ::
  "host \<Rightarrow> schema \<Rightarrow> structdef \<Rightarrow> string \<Rightarrow> field list \<Rightarrow> jsobj \<Rightarrow> error + byte list" where
  "encode_fields h d st typeName [] ob = Inr []"
| "encode_fields h d st typeName (f # fs) ob =
     (let v = field_value ob f; path = typeName @ ''.'' @ fname f in
      if v = JUndefined then encode_fields h d st typeName fs ob
      else
        (case validateValueForField d (ftype f) v path (localEnums st) of
           Inl e \<Rightarrow> Inl e
         | Inr ok \<Rightarrow>
             (case (case encode_scalar h d st f v path of
                      Some r \<Rightarrow> r
                    | None \<Rightarrow>
                        (case struct_ref d f of
                           Some (t, st') \<Rightarrow>
                             (case v of
                                JObj ob' \<Rightarrow>
                                  (case encode_fields h d st' t (sfields st') ob' of
                                     Inl e \<Rightarrow> Inl e
                                   | Inr enc \<Rightarrow> Inr (encodeVarint (int (length enc)) @ enc))
                              | _ \<Rightarrow> Inl (TypeViolation path))
                         | None \<Rightarrow> Inr [])) of
                Inl e \<Rightarrow> Inl e
              | Inr chunk \<Rightarrow>
                  (case encode_fields h d st typeName fs ob of
                     Inl e \<Rightarrow> Inl e
                   | Inr rest \<Rightarrow> Inr (chunk @ rest)))))"
  by pat_completeness auto
termination
  by (relation "measures [\<lambda>(h, d, st, tn, fs, ob). size (JObj ob), \<lambda>(h, d, st, tn, fs, ob). length fs]")
     (auto dest: size_field_value)

definition encode :: "host \<Rightarrow> schema \<Rightarrow> string \<Rightarrow> jsobj \<Rightarrow> error + byte list" where
  "encode h d typeName ob =
     (case structs d typeName of
        None \<Rightarrow> Inl (UnknownStruct typeName)
      | Some st \<Rightarrow> encode_fields h d st typeName (sfields st) ob)"

subsection \<open>Decoding\<close>

text \<open>
  The branches of \<open>decode\<close> that do not recurse, in the order of the source: the value
  read and the new cursor, or the \<open>RangeError\<close> of a view that does not fit; \<open>None\<close> when
  none of them applies. \<open>!!buf[pos++]\<close> is false for the byte 0 and for a read outside the
  array. A text that \<open>JSON.parse\<close> rejects is stored as it is.
\<close>

definition decode_scalar ::
  "host \<Rightarrow> schema \<Rightarrow> structdef \<Rightarrow> field \<Rightarrow> byte list \<Rightarrow> int \<Rightarrow> (error + (jsval \<times> int)) option" where
  "decode_scalar h d st f buf pos =
     (case ftype f of
        IntType tn rng \<Rightarrow> (case int_info tn of (sg, bits) \<Rightarrow> Some (readFixedInt buf pos bits sg))
      | Raw t \<Rightarrow>
          if t = ''int'' then
            (case int_info ''int'' of (sg, bits) \<Rightarrow> Some (readFixedInt buf pos bits sg))
          else if t = ''string'' then
            (case decodeVarint buf pos of
               (len, p2) \<Rightarrow>
                 Some (Inr (JStr (TextDecoder_decode (js_slice buf p2 (p2 + len))), p2 + len)))
          else if t = ''any'' then
            (case decodeVarint buf pos of
               (len, p2) \<Rightarrow>
                 (let s = TextDecoder_decode (js_slice buf p2 (p2 + len))
                  in Some (Inr ((case JSON_parse h s of Some v \<Rightarrow> v | None \<Rightarrow> JStr s),
                                p2 + len))))
          else if t = ''bool'' then
            Some (Inr (JBool (0 \<le> pos \<and> pos < int (length buf) \<and> buf ! nat pos \<noteq> 0), pos + 1))
          else if t = ''float'' \<or> t = ''float64'' then Some (readFloat64 buf pos)
          else if t = ''float32'' then Some (readFloat32 buf pos)
          else (case find_enum d st t of
                  Some e \<Rightarrow>
                    (case decodeVarint buf pos of
                       (num, p2) \<Rightarrow>
                         Some (Inr ((case valToName e num of
                                       Some nm \<Rightarrow> JStr nm
                                     | None \<Rightarrow> JNum num), p2)))
                | None \<Rightarrow> None))"

lemma decodeVarint_loop_advances: "pos < snd (decodeVarint_loop buf num shift pos)"
proof (induction buf num shift pos rule: decodeVarint_loop.induct)
  case (1 buf num shift pos)
  show ?case
  proof (cases "0 \<le> pos \<and> pos < int (length buf) \<and> buf ! nat pos AND 0x80 \<noteq> 0")
    case True
    then have "pos + 1 < snd (decodeVarint_loop buf
        (num OR push_bit (shift mod 32) (ucast (buf ! nat pos AND 0x7f))) (shift + 7) (pos + 1))"
      using "1.IH" by simp
    then show ?thesis
      using True by (subst decodeVarint_loop.simps) (simp add: Let_def)
  next
    case False
    then show ?thesis
      by (subst decodeVarint_loop.simps) (auto simp: Let_def)
  qed
qed

lemma decodeVarint_advances: "decodeVarint buf pos = (len, p2) \<Longrightarrow> pos < p2"
  using decodeVarint_loop_advances [of pos buf 0 0]
  by (auto simp: decodeVarint_def split: prod.splits)

lemma decodeVarint_outside:
  "pos < 0 \<or> int (length buf) \<le> pos \<Longrightarrow> decodeVarint buf pos = (0, pos + 1)"
  by (subst decodeVarint_def, subst decodeVarint_loop.simps) auto

lemma length_js_slice: "length (js_slice buf a b) \<le> length buf - rel_index (length buf) a"
  by (simp add: js_slice_def Let_def)

lemma js_slice_same: "js_slice buf a a = []"
  by (simp add: js_slice_def Let_def)

lemma nested_slice_shorter:
  assumes "decodeVarint buf pos = (len, p2)" and "pos < int (length buf)"
  shows "js_slice buf p2 (p2 + len) = [] \<or> length (js_slice buf p2 (p2 + len)) < length buf"
proof (cases "pos < 0")
  case True
  then have "len = 0" using assms(1) decodeVarint_outside [of pos buf] by simp
  then show ?thesis by (simp add: js_slice_same)
next
  case False
  then have "0 < p2" using decodeVarint_advances [OF assms(1)] by simp
  then have "0 < rel_index (length buf) p2" using assms(2) False by (auto simp: rel_index_def)
  moreover have "0 < length buf" using assms(2) False by auto
  ultimately have "length (js_slice buf p2 (p2 + len)) < length buf"
    using length_js_slice [of buf p2 "p2 + len"] by linarith
  then show ?thesis by simp
qed

lemma nested_slice_shorter':
  "(len, p2) = decodeVarint buf pos \<Longrightarrow> \<not> int (length buf) \<le> pos \<Longrightarrow>
   js_slice buf p2 (p2 + len) \<noteq> [] \<Longrightarrow> length (js_slice buf p2 (p2 + len)) < length buf"
  using nested_slice_shorter [of buf pos len p2] by auto

text \<open>
  The loop of \<open>decode\<close> over the fields of a struct, returning the object built and the
  cursor reached. Before each field the loop stops when the cursor is at or past the end
  of the buffer. A field of struct type is decoded by the call
  \<open>this.decode(field.type, buf.slice(pos, pos + len))\<close>, which starts at offset 0 of the
  slice; a field whose type is none of the known ones is left out without moving the
  cursor.
\<close>

function decode_fields ::
  "host \<Rightarrow> schema \<Rightarrow> structdef \<Rightarrow> field list \<Rightarrow> byte list \<Rightarrow> int \<Rightarrow> jsobj \<Rightarrow> error + (jsobj \<times> int)" where
  "decode_fields h d st [] buf pos ob = Inr (ob, pos)"
| "decode_fields h d st (f # fs) buf pos ob =
     (if pos \<ge> int (length buf) then Inr (ob, pos)
      else
        (case decode_scalar h d st f buf pos of
           Some (Inl e) \<Rightarrow> Inl e
         | Some (Inr (v, p)) \<Rightarrow> decode_fields h d st fs buf p (js_set (fname f) v ob)
         | None \<Rightarrow>
             (case struct_ref d f of
                Some (t, st') \<Rightarrow>
                  (case decodeVarint buf pos of
                     (len, p2) \<Rightarrow>
                       (case decode_fields h d st' (sfields st') (js_slice buf p2 (p2 + len)) 0 [] of
                          Inl e \<Rightarrow> Inl e
                        | Inr (ob', p') \<Rightarrow>
                            decode_fields h d st fs buf (p2 + len) (js_set (fname f) (JObj ob') ob)))
              | None \<Rightarrow> decode_fields h d st fs buf pos ob)))"
  by pat_completeness auto
termination
  apply (relation "measures
    [\<lambda>(h, d, st, fs, buf, pos, ob). 2 * length buf + (if pos < int (length buf) then 1 else 0),
     \<lambda>(h, d, st, fs, buf, pos, ob). length fs]")
  apply (simp_all add: nested_slice_shorter')
  done

definition decode :: "host \<Rightarrow> schema \<Rightarrow> string \<Rightarrow> byte list \<Rightarrow> int \<Rightarrow> error + jsobj" where
  "decode h d typeName buf offset =
     (case structs d typeName of
        None \<Rightarrow> Inl (UnknownStruct typeName)
      | Some st \<Rightarrow>
          (case decode_fields h d st (sfields st) buf offset [] of
             Inl e \<Rightarrow> Inl e
           | Inr (ob, pos) \<Rightarrow> Inr ob))"

subsection \<open>Strings of the schema text\<close>

text \<open>
  The string operations and regular expressions of the parser, on the UTF-8 bytes of the
  text. \<open>\w\<close> and \<open>\d\<close> are the ASCII classes. \<open>\s\<close> and \<open>trim\<close> take the white space and
  line terminators of ECMAScript; \<open>ws_len\<close> is the number of bytes of such a character at
  the head of a string, 0 when there is none.
\<close>

definition is_word :: "char \<Rightarrow> bool" where
  "is_word c =
     (let n = (of_char c :: nat)
      in (48 \<le> n \<and> n \<le> 57) \<or> (65 \<le> n \<and> n \<le> 90) \<or> (97 \<le> n \<and> n \<le> 122) \<or> n = 95)"

definition is_digit :: "char \<Rightarrow> bool" where
  "is_digit c = (let n = (of_char c :: nat) in 48 \<le> n \<and> n \<le> 57)"

definition ws_len :: "string \<Rightarrow> nat" where
  "ws_len s =
     (case map of_char (take 3 s) :: nat list of
        [] \<Rightarrow> 0
      | a # r \<Rightarrow>
          if (9 \<le> a \<and> a \<le> 13) \<or> a = 32 then 1
          else if a = 0xC2 \<and> take 1 r = [0xA0] then 2
          else if a = 0xE1 \<and> r = [0x9A, 0x80] then 3
          else if a = 0xE2 \<and>
                  (case r of
                     [b, c] \<Rightarrow>
                       b = 0x80 \<and> ((0x80 \<le> c \<and> c \<le> 0x8A) \<or> c = 0xA8 \<or> c = 0xA9 \<or> c = 0xAF)
                   | _ \<Rightarrow> False)
            then 3
          else if a = 0xE2 \<and> r = [0x81, 0x9F] then 3
          else if a = 0xE3 \<and> r = [0x80, 0x80] then 3
          else if a = 0xEF \<and> r = [0xBB, 0xBF] then 3
          else 0)"

lemma ws_len_Nil [simp]: "ws_len [] = 0"
  by (simp add: ws_len_def)

function trim_start :: "string \<Rightarrow> string" where
  "trim_start s = (if ws_len s = 0 then s else trim_start (drop (ws_len s) s))"
  by pat_completeness auto
termination
  by (relation "measure length") (auto intro: Nat.diff_less simp: neq_Nil_conv [symmetric] intro!: gr0I)

fun trim_end :: "string \<Rightarrow> string" where
  "trim_end [] = []"
| "trim_end (c # cs) = (if trim_start (c # cs) = [] then [] else c # trim_end cs)"

definition trim :: "string \<Rightarrow> string" where
  "trim s = trim_end (trim_start s)"

text \<open>\<open>s.split(/\s+/).filter(Boolean)\<close>: the maximal runs without white space.\<close>

function tokens_from :: "string \<Rightarrow> string \<Rightarrow> string list" where
  "tokens_from cur s =
     (case s of
        [] \<Rightarrow> (if cur = [] then [] else [cur])
      | c # cs \<Rightarrow>
          if ws_len s = 0 then tokens_from (cur @ [c]) cs
          else (if cur = [] then [] else [cur]) @ tokens_from [] (drop (ws_len s) s))"
  by pat_completeness auto
termination
  by (relation "measure (\<lambda>(cur, s). length s)") (auto intro: Nat.diff_less)

definition tokens :: "string \<Rightarrow> string list" where
  "tokens s = tokens_from [] s"

text \<open>\<open>s.split(c)\<close> for a one-character separator.\<close>

fun split_on :: "char \<Rightarrow> string \<Rightarrow> string list" where
  "split_on c [] = [[]]"
| "split_on c (x # xs) =
     (if x = c then [] # split_on c xs
      else (case split_on c xs of p # ps \<Rightarrow> (x # p) # ps | [] \<Rightarrow> [[x]]))"

definition starts_with :: "string \<Rightarrow> string \<Rightarrow> bool" where
  "starts_with p s = (take (length p) s = p)"

text \<open>\<open>s.indexOf(p, i)\<close>, with \<open>None\<close> for \<open>-1\<close>, and \<open>s.slice(a, b)\<close> for indices that are
  not negative.\<close>

fun find_first :: "string \<Rightarrow> string \<Rightarrow> nat option" where
  "find_first p [] = (if p = [] then Some 0 else None)"
| "find_first p (c # cs) =
     (if starts_with p (c # cs) then Some 0 else map_option Suc (find_first p cs))"

definition indexOf :: "string \<Rightarrow> string \<Rightarrow> nat \<Rightarrow> nat option" where
  "indexOf s p i = map_option (\<lambda>k. k + min i (length s)) (find_first p (drop i s))"

definition substring :: "string \<Rightarrow> nat \<Rightarrow> nat \<Rightarrow> string" where
  "substring s a b = take (b - a) (drop a s)"

text \<open>
  \<open>schema.replace(/\/\/.*$/gm, "")\<close>: from each \<open>//\<close> to the end of its line, where \<open>.\<close>
  stops at a line terminator (LF, CR, U+2028, U+2029). The flag says whether the scan is
  inside a comment.
\<close>

definition line_end :: "string \<Rightarrow> bool" where
  "line_end s =
     (case map of_char (take 3 s) :: nat list of
        [] \<Rightarrow> False
      | a # r \<Rightarrow> a = 10 \<or> a = 13 \<or> (a = 0xE2 \<and> (r = [0x80, 0xA8] \<or> r = [0x80, 0xA9])))"

fun strip_comments :: "bool \<Rightarrow> string \<Rightarrow> string" where
  "strip_comments inside [] = []"
| "strip_comments True (c # cs) =
     (if line_end (c # cs) then c # strip_comments False cs else strip_comments True cs)"
| "strip_comments False [c] = [c]"
| "strip_comments False (c # c' # cs) =
     (if c = CHR ''/'' \<and> c' = CHR ''/'' then strip_comments True cs
      else c # strip_comments False (c' # cs))"

text \<open>
  The regular expression \<open>/enum (\w+) \{([^}]*)\}/\<close> at the head of a string: the name,
  the body and the length of the match. Both repetitions are greedy and each is followed
  by a character outside its class, so no shorter repetition can match.
\<close>

definition match_enum :: "string \<Rightarrow> (string \<times> string \<times> nat) option" where
  "match_enum s =
     (if starts_with ''enum '' s then
        (let r = drop 5 s; name = takeWhile is_word r; r1 = dropWhile is_word r
         in if name \<noteq> [] \<and> starts_with '' {'' r1 then
              (let r2 = drop 2 r1;
                   body = takeWhile (\<lambda>c. c \<noteq> CHR ''}'') r2;
                   r3 = dropWhile (\<lambda>c. c \<noteq> CHR ''}'') r2
               in if r3 \<noteq> [] then Some (name, body, 8 + length name + length body) else None)
            else None)
      else None)"

text \<open>The matches of the global regular expression from left to right, and the text
  with every match removed.\<close>

function enum_matches :: "string \<Rightarrow> (string \<times> string) list" where
  "enum_matches s =
     (case s of
        [] \<Rightarrow> []
      | c # cs \<Rightarrow>
          (case match_enum s of
             Some (name, body, n) \<Rightarrow> (name, body) # enum_matches (drop (8 + length name + length body) s)
           | None \<Rightarrow> enum_matches cs))"
  by pat_completeness auto
termination
  by (relation "measure length") auto

function remove_enums :: "string \<Rightarrow> string" where
  "remove_enums s =
     (case s of
        [] \<Rightarrow> []
      | c # cs \<Rightarrow>
          (case match_enum s of
             Some (name, body, n) \<Rightarrow> remove_enums (drop (8 + length name + length body) s)
           | None \<Rightarrow> c # remove_enums cs))"
  by pat_completeness auto
termination
  by (relation "measure length") auto

subsection \<open>The schema parser\<close>

text \<open>
  \<open>parseEnumBody\<close>. Each part between semicolons is matched against
  \<open>/(\w+)(?:\s*=\s*(\d+))?/\<close>: the key is the first run of word characters of the part,
  and the value the digits after an equals sign that follows it, when there is one.
  \<open>parseInt\<close> reads the digits in base ten; the enum values of the model are exact
  integers (the numbers of the source are exact below \<open>2 ^ 53\<close>).
\<close>

definition parseInt :: "string \<Rightarrow> int" where
  "parseInt ds = foldl (\<lambda>acc c. 10 * acc + (int (of_char c) - 48)) 0 ds"

definition enum_value :: "string \<Rightarrow> string option" where
  "enum_value rest =
     (case trim_start rest of
        [] \<Rightarrow> None
      | c # r \<Rightarrow>
          if c = CHR ''='' then
            (let ds = takeWhile is_digit (trim_start r) in if ds = [] then None else Some ds)
          else None)"

definition enum_entry :: "string \<Rightarrow> (string \<times> string option) option" where
  "enum_entry part =
     (let r = dropWhile (\<lambda>c. \<not> is_word c) part
      in if r = [] then None
         else Some (takeWhile is_word r, enum_value (dropWhile is_word r)))"

definition enum_step :: "int \<times> enumdef \<Rightarrow> string \<Rightarrow> int \<times> enumdef" where
  "enum_step state part0 =
     (case state of
        (counter, e) \<Rightarrow>
          (let part = trim part0 in
           if part = [] then state
           else (case enum_entry part of
                   None \<Rightarrow> state
                 | Some (key, valStr) \<Rightarrow>
                     (let val = (case valStr of Some ds \<Rightarrow> parseInt ds | None \<Rightarrow> counter)
                      in (val + 1,
                          \<lparr>nameToVal = (nameToVal e)(key \<mapsto> val),
                           valToName = (valToName e)(val \<mapsto> key)\<rparr>)))))"

definition parseEnumBody :: "string \<Rightarrow> enumdef" where
  "parseEnumBody body =
     snd (foldl enum_step (0, \<lparr>nameToVal = Map.empty, valToName = Map.empty\<rparr>)
            (split_on CHR '';'' body))"

text \<open>
  The type token against
  \<open>/^(int|uint8|int8|uint16|int16|uint32|int32|uint8|int)\s*(?:\[\s*([^,\]]+)\s*,\s*([^\]]+)\s*\])?$/\<close>.
  The token comes from a split at white space and holds none, so every \<open>\s*\<close> matches
  the empty string. \<open>match_range\<close> is the part after the keyword: nothing, or a bracket
  with the two bound texts.
\<close>

definition match_range :: "string \<Rightarrow> (string \<times> string) option option" where
  "match_range rest =
     (case rest of
        [] \<Rightarrow> Some None
      | c # r \<Rightarrow>
          if c = CHR ''['' then
            (let a = takeWhile (\<lambda>x. x \<noteq> CHR '','' \<and> x \<noteq> CHR '']'') r;
                 r1 = dropWhile (\<lambda>x. x \<noteq> CHR '','' \<and> x \<noteq> CHR '']'') r
             in if a \<noteq> [] \<and> starts_with '','' r1 then
                  (let r2 = drop 1 r1;
                       b = takeWhile (\<lambda>x. x \<noteq> CHR '']'') r2;
                       r3 = dropWhile (\<lambda>x. x \<noteq> CHR '']'') r2
                   in if b \<noteq> [] \<and> r3 = '']'' then Some (Some (a, b)) else None)
                else None)
          else None)"

fun match_keywords :: "string list \<Rightarrow> string \<Rightarrow> (string \<times> (string \<times> string) option) option" where
  "match_keywords [] rawType = None"
| "match_keywords (kw # kws) rawType =
     (if starts_with kw rawType then
        (case match_range (drop (length kw) rawType) of
           Some r \<Rightarrow> Some (kw, r)
         | None \<Rightarrow> match_keywords kws rawType)
      else match_keywords kws rawType)"

definition intMatch :: "string \<Rightarrow> (string \<times> (string \<times> string) option) option" where
  "intMatch rawType =
     match_keywords
       [''int'', ''uint8'', ''int8'', ''uint16'', ''int16'', ''uint32'', ''int32'', ''uint8'', ''int'']
       rawType"

text \<open>
  The type of a field declaration (the middle of the callback of \<open>parseStructBody\<close>):
  the bounds are read by \<open>Number\<close>, must be integers, and are checked against the
  intrinsic bounds of the keyword; the error of that check is rethrown with the name of
  the field.
\<close>

definition parseType :: "host \<Rightarrow> string \<Rightarrow> string \<Rightarrow> string \<Rightarrow> error + ftype" where
  "parseType h rawType structName fieldName =
     (case intMatch rawType of
        Some (name, Some (rangeA, rangeB)) \<Rightarrow>
          (case Number h rangeA of
             JNum rmin \<Rightarrow>
               (case Number h rangeB of
                  JNum rmax \<Rightarrow>
                    (case validateRangeAgainstIntrinsic name rmin rmax of
                       Inl e \<Rightarrow> Inl (AtField e structName fieldName)
                     | Inr ok \<Rightarrow> Inr (IntType name (Some (rmin, rmax))))
                | _ \<Rightarrow> Inl (InvalidIntegerRange rawType))
           | _ \<Rightarrow> Inl (InvalidIntegerRange rawType))
      | Some (name, None) \<Rightarrow> Inr (IntType name None)
      | None \<Rightarrow> Inr (Raw rawType))"

text \<open>The callback of \<open>parseStructBody\<close> on one part between semicolons: a field, or
  nothing for an empty or malformed part.\<close>

definition parseField :: "host \<Rightarrow> string \<Rightarrow> string \<Rightarrow> error + field option" where
  "parseField h structName part0 =
     (let part = trim part0 in
      if part = [] then Inr None
      else (case map trim (split_on CHR '':'' part) of
              [] \<Rightarrow> Inr None
            | decl # defs \<Rightarrow>
                if decl = [] then Inr None
                else (case tokens decl of
                        rawType # name # others \<Rightarrow>
                          (case parseType h rawType structName name of
                             Inl e \<Rightarrow> Inl e
                           | Inr ty \<Rightarrow>
                               Inr (Some \<lparr>ftype = ty, fname = name,
                                          fdefault = (case defs of [] \<Rightarrow> None | defVal # x \<Rightarrow> Some defVal)\<rparr>))
                      | _ \<Rightarrow> Inr None)))"

fun parse_fields :: "host \<Rightarrow> string \<Rightarrow> string list \<Rightarrow> error + field list" where
  "parse_fields h structName [] = Inr []"
| "parse_fields h structName (part # parts) =
     (case parseField h structName part of
        Inl e \<Rightarrow> Inl e
      | Inr fo \<Rightarrow>
          (case parse_fields h structName parts of
             Inl e \<Rightarrow> Inl e
           | Inr fs \<Rightarrow> Inr ((case fo of None \<Rightarrow> [] | Some f \<Rightarrow> [f]) @ fs)))"

definition enum_table :: "string \<Rightarrow> (string \<rightharpoonup> enumdef)" where
  "enum_table text =
     foldl (\<lambda>m (name, body). m(name \<mapsto> parseEnumBody body)) Map.empty (enum_matches text)"

definition parseStructBody :: "host \<Rightarrow> string \<Rightarrow> string \<Rightarrow> error + structdef" where
  "parseStructBody h body structName =
     (case parse_fields h structName (split_on CHR '';'' (remove_enums body)) of
        Inl e \<Rightarrow> Inl e
      | Inr fs \<Rightarrow> Inr \<lparr>sfields = fs, localEnums = enum_table body\<rparr>)"

text \<open>
  The scan for the brace that closes a struct: the offset, from the opening brace, at
  which the depth returns to 0; \<open>None\<close> when the text ends first.
\<close>

fun close_brace :: "string \<Rightarrow> int \<Rightarrow> nat option" where
  "close_brace [] depth = None"
| "close_brace (ch # cs) depth =
     (if ch = CHR ''{'' then map_option Suc (close_brace cs (depth + 1))
      else if ch = CHR ''}'' then
        (if depth - 1 = 0 then Some 0 else map_option Suc (close_brace cs (depth - 1)))
      else map_option Suc (close_brace cs depth))"

definition blank :: "string \<Rightarrow> nat \<Rightarrow> nat \<Rightarrow> string" where
  "blank s sIndex j = take sIndex s @ replicate (j - sIndex + 1) CHR '' '' @ drop (j + 1) s"

lemma find_first_bound: "find_first p s = Some k \<Longrightarrow> p \<noteq> [] \<Longrightarrow> k < length s"
  by (induction s arbitrary: k) (auto split: if_splits)

lemma indexOf_bound: "indexOf s p i = Some k \<Longrightarrow> p \<noteq> [] \<Longrightarrow> i \<le> k \<and> k < length s"
  by (auto simp: indexOf_def dest!: find_first_bound)

lemma close_brace_bound: "close_brace t depth = Some off \<Longrightarrow> off < length t"
  by (induction t arbitrary: depth off) (auto split: if_splits)

lemma length_blank: "j < length s \<Longrightarrow> sIndex \<le> j \<Longrightarrow> length (blank s sIndex j) = length s"
  by (simp add: blank_def)

text \<open>
  The loop of \<open>parseSchema\<close> over the structs, from index \<open>i\<close>: the table of structs and
  the text with every parsed struct blanked. The loop stops without an error at a
  \<open>struct\<close> with no brace or with unbalanced braces.
\<close>

function parse_structs ::
  "host \<Rightarrow> string \<Rightarrow> nat \<Rightarrow> (string \<rightharpoonup> structdef) \<Rightarrow> error + ((string \<rightharpoonup> structdef) \<times> string)" where
  "parse_structs h s i acc =
     (case indexOf s ''struct '' i of
        None \<Rightarrow> Inr (acc, s)
      | Some sIndex \<Rightarrow>
          (case indexOf s ''{'' (sIndex + 7) of
             None \<Rightarrow> Inr (acc, s)
           | Some braceIndex \<Rightarrow>
               (case close_brace (drop braceIndex s) 0 of
                  None \<Rightarrow> Inr (acc, s)
                | Some off \<Rightarrow>
                    (let name = (case tokens (substring s (sIndex + 7) braceIndex) of
                                   [] \<Rightarrow> [] | t # ts \<Rightarrow> t);
                         j = braceIndex + off
                     in case parseStructBody h (substring s (braceIndex + 1) j) name of
                          Inl e \<Rightarrow> Inl e
                        | Inr sd \<Rightarrow> parse_structs h (blank s sIndex j) (sIndex + 1) (acc(name \<mapsto> sd))))))"
  by pat_completeness auto
termination
proof (relation "measure (\<lambda>(h, s, i, acc). length s - i)", goal_cases)
  case 1
  show ?case by simp
next
  case (2 h s i acc sIndex braceIndex off name j sd)
  have a: "i \<le> sIndex \<and> sIndex < length s" using 2(1) indexOf_bound by simp
  have b: "sIndex + 7 \<le> braceIndex \<and> braceIndex < length s" using 2(2) indexOf_bound by simp
  have "off < length (drop braceIndex s)" using 2(3) by (rule close_brace_bound)
  then have c: "j < length s" using 2(5) by simp
  have "length (blank s sIndex j) = length s"
    using length_blank [of j s sIndex] b c 2(5) by simp
  then show ?case using a by auto
qed

definition parseSchema :: "host \<Rightarrow> string \<Rightarrow> error + schema" where
  "parseSchema h text =
     (case parse_structs h (strip_comments False text) 0 Map.empty of
        Inl e \<Rightarrow> Inl e
      | Inr (sts, rest) \<Rightarrow> Inr \<lparr>structs = sts, enums = enum_table rest\<rparr>)"

subsection \<open>Compiling a text and running the codec on it\<close>

text \<open>\<open>new MiniStruct(schema).encode(typeName, obj)\<close> and
  \<open>new MiniStruct(schema).decode(typeName, buf, offset)\<close>.\<close>

definition encode_text :: "host \<Rightarrow> string \<Rightarrow> string \<Rightarrow> jsobj \<Rightarrow> error + byte list" where
  "encode_text h text typeName ob =
     (case parseSchema h text of Inl e \<Rightarrow> Inl e | Inr d \<Rightarrow> encode h d typeName ob)"

definition decode_text :: "host \<Rightarrow> string \<Rightarrow> string \<Rightarrow> byte list \<Rightarrow> int \<Rightarrow> error + jsobj" where
  "decode_text h text typeName buf offset =
     (case parseSchema h text of Inl e \<Rightarrow> Inl e | Inr d \<Rightarrow> decode h d typeName buf offset)"

text \<open>
  A host for the closed instances below. Its \<open>Number\<close> reads the empty string and the
  decimal integer literals with an optional sign, and gives NaN on every other string
  (which is what \<open>Number\<close> does only for the strings that are no numeric literal: the
  instances apply it to decimal literals). Its JSON functions serialise every value as
  \<open>null\<close> and parse nothing; the instances have no field of type \<open>any\<close>.
\<close>

definition Number_decimal :: "string \<Rightarrow> jsval" where
  "Number_decimal s =
     (case s of
        [] \<Rightarrow> JNum 0
      | c # r \<Rightarrow>
          if (c = CHR ''-'' \<or> c = CHR ''+'') \<and> r \<noteq> [] \<and> list_all is_digit r
            then JNum ((if c = CHR ''-'' then - 1 else 1) * parseInt r)
          else if list_all is_digit s then JNum (parseInt s)
          else JFloat 0x7FF8000000000000)"

definition test_host :: host where
  "test_host =
     \<lparr>JSON_stringify = (\<lambda>v. ''null''), JSON_parse = (\<lambda>s. None), Number = Number_decimal\<rparr>"

subsection \<open>Notions used in the statements\<close>

text \<open>The type tokens that \<open>encode\<close> and \<open>decode\<close> compare with before they look a type
  up among the enums and structs.\<close>

definition scalar_keyword :: "string \<Rightarrow> bool" where
  "scalar_keyword t =
     (t = ''int'' \<or> t = ''string'' \<or> t = ''any'' \<or> t = ''bool'' \<or> t = ''float''
      \<or> t = ''float64'' \<or> t = ''float32'')"

text \<open>
  The width in bytes of a field that \<open>decode\<close> reads through a \<open>DataView\<close> (an integer or
  a float), and when such a read is cut short: the cursor is negative, or fewer bytes
  than the width are left from it.
\<close>

definition fixed_width :: "field \<Rightarrow> nat option" where
  "fixed_width f =
     (case ftype f of
        IntType tn rng \<Rightarrow> Some (snd (int_info tn) div 8)
      | Raw t \<Rightarrow>
          if t = ''int'' then Some (snd (int_info ''int'') div 8)
          else if t = ''float'' \<or> t = ''float64'' then Some 8
          else if t = ''float32'' then Some 4
          else None)"

definition cut_short :: "field \<Rightarrow> byte list \<Rightarrow> int \<Rightarrow> bool" where
  "cut_short f buf pos =
     (case fixed_width f of
        Some w \<Rightarrow> pos < 0 \<or> int (length buf) < pos + int w
      | None \<Rightarrow> False)"



















subsection \<open>Compiled schemas of the closed instances\<close>

definition x_field :: field where
  "x_field = \<lparr>ftype = IntType ''int8'' (Some (- 5, 5)), fname = ''x'', fdefault = None\<rparr>"

definition ok_field :: field where
  "ok_field = \<lparr>ftype = Raw ''bool'', fname = ''ok'', fdefault = None\<rparr>"

definition name_field :: field where
  "name_field = \<lparr>ftype = Raw ''string'', fname = ''name'', fdefault = None\<rparr>"

definition n_field :: field where
  "n_field = \<lparr>ftype = IntType ''int32'' None, fname = ''n'', fdefault = None\<rparr>"

definition float_field :: field where
  "float_field = \<lparr>ftype = Raw ''float'', fname = ''f'', fdefault = None\<rparr>"

definition float64_field :: field where
  "float64_field = \<lparr>ftype = Raw ''float64'', fname = ''g'', fdefault = None\<rparr>"

definition float32_field :: field where
  "float32_field = \<lparr>ftype = Raw ''float32'', fname = ''s'', fdefault = None\<rparr>"

definition color_field :: field where
  "color_field = \<lparr>ftype = Raw ''Color'', fname = ''c'', fdefault = None\<rparr>"

definition color_enum :: enumdef where
  "color_enum =
     \<lparr>nameToVal = [''RED'' \<mapsto> 1, ''GREEN'' \<mapsto> 2, ''BLUE'' \<mapsto> 3],
      valToName = [1 \<mapsto> ''RED'', 2 \<mapsto> ''GREEN'', 3 \<mapsto> ''BLUE'']\<rparr>"

definition p_struct :: structdef where
  "p_struct = \<lparr>sfields = [x_field, ok_field, name_field], localEnums = Map.empty\<rparr>"

definition q_struct :: structdef where
  "q_struct = \<lparr>sfields = [n_field], localEnums = Map.empty\<rparr>"

definition c_struct :: structdef where
  "c_struct = \<lparr>sfields = [color_field], localEnums = Map.empty\<rparr>"

definition f_struct :: structdef where
  "f_struct = \<lparr>sfields = [float_field, float64_field, float32_field], localEnums = Map.empty\<rparr>"

definition test_schema :: schema where
  "test_schema =
     \<lparr>structs = [''P'' \<mapsto> p_struct, ''Q'' \<mapsto> q_struct, ''C'' \<mapsto> c_struct, ''F'' \<mapsto> f_struct],
      enums = [''Color'' \<mapsto> color_enum]\<rparr>"







section \<open>Evaluation\<close>

text \<open>
  The loops with a single equation are unfolded on demand only. The two collections
  are the definitions a concrete run of the parser and of the codec unfolds.
\<close>

declare bitlen.simps [simp del]
declare encodeVarint.simps [simp del]
declare decodeVarint_loop.simps [simp del]
declare trim_start.simps [simp del]
declare tokens_from.simps [simp del]
declare enum_matches.simps [simp del]
declare remove_enums.simps [simp del]
declare parse_structs.simps [simp del]

lemma le_bytes_numeral:
  "le_bytes (numeral k) v = word_of_int v # le_bytes (pred_numeral k) (v div 256)"
  by (simp add: numeral_eq_Suc)

lemmas parser_defs =
  trim_start.simps tokens_from.simps enum_matches.simps remove_enums.simps parse_structs.simps
  parseSchema_def parseStructBody_def parseField_def parseType_def intMatch_def
  match_range_def starts_with_def indexOf_def substring_def blank_def tokens_def trim_def
  ws_len_def enum_table_def match_enum_def validateRangeAgainstIntrinsic_def
  intrinsicBoundsForInt_def INT_TYPES_def line_end_def is_word_def is_digit_def
  parseEnumBody_def enum_step_def enum_entry_def enum_value_def parseInt_def

lemmas codec_defs =
  encodeVarint.simps decodeVarint_loop.simps
  encode_def decode_def encode_scalar_def decode_scalar_def validateValueForField_def
  validate_enum_def field_value_def default_value_def js_get_def struct_ref_def
  find_enum_def int_info_def INT_TYPES_def intrinsicBoundsForInt_def writeFixedInt_def
  readFixedInt_def dataView_def TextEncoder_encode_def TextDecoder_decode_def utf8_lead_def
  decodeVarint_def js_slice_def rel_index_def char_of_def bit_0 bit_Suc_0_iff
  le_bytes_numeral


lemmas host_defs = test_host_def Number_decimal_def is_digit_def parseInt_def

lemmas instance_defs =
  x_field_def ok_field_def name_field_def n_field_def float_field_def float64_field_def
  float32_field_def color_field_def color_enum_def p_struct_def q_struct_def c_struct_def
  f_struct_def test_schema_def scalar_keyword_def fixed_width_def cut_short_def


section \<open>Scenarios\<close>

text \<open>
  C5. Compiling \<open>struct P { int8[-5,5] x; bool ok; string name; }\<close> and encoding
  \<open>{x: 3, ok: true, name: "hi"}\<close> for struct \<open>P\<close> gives exactly the bytes
  \<open>03 01 02 68 69\<close>, and decoding these bytes as \<open>P\<close> gives the value back. This holds on
  every host whose \<open>Number\<close> reads the two bound literals \<open>-5\<close> and \<open>5\<close> as the integers
  they denote.
\<close>

theorem scenario_P:
  assumes "Number h ''-5'' = JNum (- 5)" and "Number h ''5'' = JNum 5"
  shows "encode_text h ''struct P { int8[-5,5] x; bool ok; string name; }'' ''P''
           [(''x'', JNum 3), (''ok'', JBool True), (''name'', JStr ''hi'')]
         = Inr [0x03, 0x01, 0x02, 0x68, 0x69]
       \<and> decode_text h ''struct P { int8[-5,5] x; bool ok; string name; }'' ''P''
           [0x03, 0x01, 0x02, 0x68, 0x69] 0
         = Inr [(''x'', JNum 3), (''ok'', JBool True), (''name'', JStr ''hi'')]"
  using assms
  by (simp add: encode_text_def decode_text_def parser_defs codec_defs Let_def)

theorem scenario_P_witness:
  "Number test_host ''-5'' = JNum (- 5) \<and> Number test_host ''5'' = JNum 5
   \<and> encode_text test_host ''struct P { int8[-5,5] x; bool ok; string name; }'' ''P''
           [(''x'', JNum 3), (''ok'', JBool True), (''name'', JStr ''hi'')]
         = Inr [0x03, 0x01, 0x02, 0x68, 0x69]
   \<and> decode_text test_host ''struct P { int8[-5,5] x; bool ok; string name; }'' ''P''
           [0x03, 0x01, 0x02, 0x68, 0x69] 0
         = Inr [(''x'', JNum 3), (''ok'', JBool True), (''name'', JStr ''hi'')]"
  using scenario_P [of test_host] by (simp add: host_defs)

text \<open>
  C3, as the spec states it. The schema text
  \<open>enum Color{RED=1;GREEN=2;BLUE=3;} struct C { Color c; }\<close> has no space between the
  enum name and its brace, and the regular expression of the parser,
  \<open>/enum (\w+) \{([^}]*)\}/\<close>, asks for one: the enum is not compiled, and encoding
  \<open>{c: "BLUE"}\<close> for struct \<open>C\<close> fails with \<open>Unknown type: Color at C.c\<close> instead of
  giving the byte \<open>03\<close>.
\<close>

theorem scenario_C_unspaced_counterexample:
  "encode_text test_host ''enum Color{RED=1;GREEN=2;BLUE=3;} struct C { Color c; }'' ''C''
     [(''c'', JStr ''BLUE'')]
   = Inl (UnknownType ''Color'' ''C.c'')"
  by (simp add: encode_text_def parser_defs codec_defs test_host_def Let_def)

text \<open>
  C3, amended. With the enum written \<open>enum Color {...}\<close>, as the parser reads it,
  compiling \<open>enum Color {RED=1;GREEN=2;BLUE=3;} struct C { Color c; }\<close> and encoding
  \<open>{c: "BLUE"}\<close> for struct \<open>C\<close> gives exactly the byte \<open>03\<close>, and decoding that byte as
  \<open>C\<close> gives \<open>{c: "BLUE"}\<close>, on every host.
\<close>

theorem scenario_C:
  "encode_text h ''enum Color {RED=1;GREEN=2;BLUE=3;} struct C { Color c; }'' ''C''
     [(''c'', JStr ''BLUE'')]
   = Inr [0x03]
   \<and> decode_text h ''enum Color {RED=1;GREEN=2;BLUE=3;} struct C { Color c; }'' ''C'' [0x03] 0
   = Inr [(''c'', JStr ''BLUE'')]"
  by (simp add: encode_text_def decode_text_def parser_defs codec_defs Let_def)

section \<open>Fields on the wire\<close>

lemma length_le_bytes [simp]: "length (le_bytes k x) = k"
  by (induction k arbitrary: x) auto





text \<open>
  C10. For a field of type \<open>bool\<close>, \<open>decode\<close> maps the wire byte 0 to \<open>false\<close> and every
  other byte to \<open>true\<close>, and moves the cursor by one: a buffer of a single byte, whatever
  the byte, decodes without error. \<open>encode\<close> only ever emits the bytes 0 and 1 for it.
\<close>

theorem bool_decode:
  assumes "ftype f = Raw ''bool''" and "0 \<le> pos" and "pos < int (length buf)"
  shows "decode_scalar h d st f buf pos = Some (Inr (JBool (buf ! nat pos \<noteq> 0), pos + 1))
       \<and> decode_fields h d st [f] [b] 0 [] = Inr ([(fname f, JBool (b \<noteq> 0))], 1)
       \<and> encode_scalar h d st f (JBool v) path = Some (Inr [if v then 1 else 0])"
  using assms by (simp add: decode_scalar_def encode_scalar_def)

theorem bool_decode_witness:
  "ftype ok_field = Raw ''bool'' \<and> (0::int) \<le> 1 \<and> 1 < int (length [7, 255 :: byte])
   \<and> decode_scalar test_host test_schema p_struct ok_field [7, 255] 1 = Some (Inr (JBool True, 2))
   \<and> decode_fields test_host test_schema p_struct [ok_field] [0] 0 [] = Inr ([(''ok'', JBool False)], 1)
   \<and> encode_scalar test_host test_schema p_struct ok_field (JBool True) ''P.ok'' = Some (Inr [1])"
  using bool_decode [of ok_field 1 "[7, 255]" test_host test_schema p_struct 0 True "''P.ok''"]
  by (simp add: ok_field_def)



text \<open>
  C6. For a field whose type resolves to an enum (the local table first, then the
  global one), \<open>decode\<close> reads a varint \<open>n\<close> and stores the name the value table gives
  for \<open>n\<close>, or the number \<open>n\<close> itself when the table has no entry for it; it raises no
  error in either case and goes on with the next field.
\<close>

theorem enum_passthrough:
  assumes "ftype f = Raw t" and "\<not> scalar_keyword t" and "find_enum d st t = Some e"
    and "pos < int (length buf)" and "decodeVarint buf pos = (n, p)"
  shows "decode_scalar h d st f buf pos
           = Some (Inr (case valToName e n of Some nm \<Rightarrow> JStr nm | None \<Rightarrow> JNum n, p))
       \<and> decode_fields h d st (f # fs) buf pos ob
           = decode_fields h d st fs buf p
               (js_set (fname f) (case valToName e n of Some nm \<Rightarrow> JStr nm | None \<Rightarrow> JNum n) ob)"
  using assms by (simp add: decode_scalar_def scalar_keyword_def)

theorem enum_passthrough_witness:
  "ftype color_field = Raw ''Color'' \<and> \<not> scalar_keyword ''Color''
   \<and> find_enum test_schema c_struct ''Color'' = Some color_enum
   \<and> 0 < int (length [9 :: byte]) \<and> decodeVarint [9] 0 = (9, 1)
   \<and> decode_scalar test_host test_schema c_struct color_field [9] 0 = Some (Inr (JNum 9, 1))
   \<and> decode_fields test_host test_schema c_struct [color_field] [9] 0 [] = Inr ([(''c'', JNum 9)], 1)"
proof -
  have a: "ftype color_field = Raw ''Color''" "\<not> scalar_keyword ''Color''"
    "find_enum test_schema c_struct ''Color'' = Some color_enum"
    "0 < int (length [9 :: byte])"
    by (simp_all add: instance_defs find_enum_def)
  have b: "decodeVarint [9] 0 = (9, 1)"
    by (simp add: decodeVarint_def decodeVarint_loop.simps)
  have c: "valToName color_enum 9 = None"
    by (simp add: color_enum_def)
  show ?thesis
    using enum_passthrough [OF a b, of test_host "[]" "[]"] a b
    by (simp add: c color_field_def)
qed

text \<open>
  C7. A field that has no default literal and is absent from the input value
  contributes no byte: the encoding is the one of the struct without that field. When
  the cursor of \<open>decode\<close> is at or past the end of the buffer at that field, the loop
  returns the object built so far, with no entry added for the field or for any later
  one.
\<close>

lemma encode_fields_skip:
  "field_value V f = JUndefined \<Longrightarrow>
   encode_fields h d st tn (fs1 @ f # fs2) V = encode_fields h d st tn (fs1 @ fs2) V"
  by (induction fs1) (simp_all add: Let_def cong: sum.case_cong)

theorem field_omission:
  assumes "fdefault f = None" and "js_get V (fname f) = JUndefined"
    and "int (length buf) \<le> pos"
  shows "encode_fields h d st tn (fs1 @ f # fs2) V = encode_fields h d st tn (fs1 @ fs2) V
       \<and> decode_fields h d st (f # fs2) buf pos ob = Inr (ob, pos)"
proof -
  have "field_value V f = JUndefined"
    using assms(1,2) by (simp add: field_value_def default_value_def)
  then show ?thesis using assms(3) by (simp add: encode_fields_skip)
qed

theorem field_omission_witness:
  "fdefault ok_field = None
   \<and> js_get [(''x'', JNum 3), (''name'', JStr ''hi'')] (fname ok_field) = JUndefined
   \<and> int (length [3 :: byte]) \<le> 1
   \<and> encode_fields test_host test_schema p_struct ''P'' ([x_field] @ ok_field # [name_field])
        [(''x'', JNum 3), (''name'', JStr ''hi'')]
      = Inr [0x03, 0x02, 0x68, 0x69]
   \<and> decode_fields test_host test_schema p_struct (ok_field # [name_field]) [3] 1 [(''x'', JNum 3)]
      = Inr ([(''x'', JNum 3)], 1)"
proof -
  have a: "fdefault ok_field = None"
    "js_get [(''x'', JNum 3), (''name'', JStr ''hi'')] (fname ok_field) = JUndefined"
    "int (length [3 :: byte]) \<le> 1"
    by (simp_all add: ok_field_def js_get_def)
  have b: "encode_fields test_host test_schema p_struct ''P'' ([x_field] @ [name_field])
        [(''x'', JNum 3), (''name'', JStr ''hi'')] = Inr [0x03, 0x02, 0x68, 0x69]"
    by (simp add: codec_defs instance_defs)
  show ?thesis
    using field_omission [OF a, of test_host test_schema p_struct "''P''" "[x_field]" "[name_field]"
        "[(''x'', JNum 3)]"] a b
    by simp
qed

section \<open>Declared ranges\<close>






section \<open>Failures of decode\<close>

lemma int_info_bits: "int_info tn = (sg, bits) \<Longrightarrow> bits = 8 \<or> bits = 16 \<or> bits = 32"
  by (auto simp: int_info_def INT_TYPES_def split: if_splits)

lemma readFixedInt_error:
  assumes "int_info tn = (sg, bits)" and "readFixedInt buf pos bits sg = Inl e"
  shows "e = DataViewRangeError \<and> (pos < 0 \<or> int (length buf) < pos + int (bits div 8))"
  using assms int_info_bits [OF assms(1)]
  by (auto simp: readFixedInt_def dataView_def Let_def split: if_splits sum.splits)

lemma decode_scalar_error:
  assumes "decode_scalar h d st f buf pos = Some (Inl e)"
  shows "e = DataViewRangeError \<and> cut_short f buf pos"
proof (cases "ftype f")
  case (IntType tn rng)
  obtain sg bits where i: "int_info tn = (sg, bits)" by (cases "int_info tn")
  then have "readFixedInt buf pos bits sg = Inl e"
    using assms IntType by (simp add: decode_scalar_def)
  from readFixedInt_error [OF i this] show ?thesis
    using IntType i by (simp add: cut_short_def fixed_width_def)
next
  case (Raw t)
  obtain sg bits where i: "int_info ''int'' = (sg, bits)" by (cases "int_info ''int''")
  show ?thesis
  proof (cases "t = ''int''")
    case True
    then have "readFixedInt buf pos bits sg = Inl e"
      using assms Raw i by (simp add: decode_scalar_def)
    from readFixedInt_error [OF i this] show ?thesis
      using Raw True i by (simp add: cut_short_def fixed_width_def)
  next
    case False
    then show ?thesis
      using assms Raw
      by (auto simp: decode_scalar_def cut_short_def fixed_width_def readFloat64_def
          readFloat32_def dataView_def Let_def split: if_splits prod.splits option.splits sum.splits)
  qed
qed

lemma decode_fields_error:
  "decode_fields h d st fs buf pos ob = Inl e \<Longrightarrow> e = DataViewRangeError"
proof (induction h d st fs buf pos ob arbitrary: e rule: decode_fields.induct)
  case (1 h d st buf pos ob)
  then show ?case by simp
next
  case (2 h d st f fs buf pos ob)
  have inside: "\<not> int (length buf) \<le> pos"
    using "2.prems" by (auto split: if_splits)
  show ?case
  proof (cases "decode_scalar h d st f buf pos")
    case None
    show ?thesis
    proof (cases "struct_ref d f")
      case n: None
      have "decode_fields h d st fs buf pos ob = Inl e"
        using "2.prems" inside None n by simp
      then show ?thesis by (rule "2.IH"(1) [OF inside None n])
    next
      case (Some p)
      obtain t st' where p: "(t, st') = p" by (cases p) auto
      obtain len p2 where v: "(len, p2) = decodeVarint buf pos"
        by (cases "decodeVarint buf pos") auto
      show ?thesis
      proof (cases "decode_fields h d st' (sfields st') (js_slice buf p2 (p2 + len)) 0 []")
        case (Inl e')
        then have "e' = DataViewRangeError"
          by (rule "2.IH"(2) [OF inside None Some p v])
        moreover have "e = e'"
          using "2.prems" inside None Some p [symmetric] v [symmetric] Inl by simp
        ultimately show ?thesis by simp
      next
        case (Inr r)
        obtain ob' p' where r: "(ob', p') = r" by (cases r) auto
        have "decode_fields h d st fs buf (p2 + len) (js_set (fname f) (JObj ob') ob) = Inl e"
          using "2.prems" inside None Some p [symmetric] v [symmetric] Inr r [symmetric] by simp
        then show ?thesis by (rule "2.IH"(3) [OF inside None Some p v Inr r])
      qed
    qed
  next
    case (Some r)
    show ?thesis
    proof (cases r)
      case (Inl e')
      then show ?thesis
        using "2.prems" inside Some decode_scalar_error [of h d st f buf pos e'] by simp
    next
      case (Inr vp)
      obtain v p where vp: "(v, p) = vp" by (cases vp) auto
      have "decode_fields h d st fs buf p (js_set (fname f) v ob) = Inl e"
        using "2.prems" inside Some Inr vp [symmetric] by simp
      then show ?thesis by (rule "2.IH"(4) [OF inside Some Inr vp])
    qed
  qed
qed

text \<open>
  C4, as the spec states it. The bytes \<open>01 02\<close> are the first half of the encoding
  \<open>01 02 00 00\<close> of \<open>{n: 513}\<close> for \<open>struct Q { int32 n; }\<close>, and decoding them as \<open>Q\<close> does
  not return a value with \<open>n\<close> absent: the cursor is inside the buffer, the loop goes on,
  and the four-byte view of \<open>readFixedInt\<close> does not fit, which throws a \<open>RangeError\<close>.
\<close>

theorem decode_truncated_counterexample:
  "encode_text test_host ''struct Q { int32 n; }'' ''Q'' [(''n'', JNum 513)] = Inr [1, 2, 0, 0]
   \<and> decode_text test_host ''struct Q { int32 n; }'' ''Q'' (take 2 [1, 2, 0, 0]) 0
       = Inl DataViewRangeError"
  by (simp add: encode_text_def decode_text_def parser_defs codec_defs Let_def)

text \<open>
  C4, amended. \<open>decode\<close> fails only when the requested struct is not declared, or with
  the \<open>RangeError\<close> of a view that does not fit; a field raises that error only when it is
  an integer or a float and is cut short, that is, the cursor is negative or fewer bytes
  than its width are left. When the cursor starts at or past the end of the buffer,
  \<open>decode\<close> of a declared struct returns the empty object.
\<close>

theorem decode_failures:
  "(decode h d S buf off = Inl e \<longrightarrow>
      (structs d S = None \<and> e = UnknownStruct S)
      \<or> (structs d S \<noteq> None \<and> e = DataViewRangeError))
   \<and> (decode_scalar h d st f buf' pos = Some (Inl e') \<longrightarrow>
        e' = DataViewRangeError \<and> cut_short f buf' pos)
   \<and> (structs d S \<noteq> None \<and> int (length buf) \<le> off \<longrightarrow> decode h d S buf off = Inr [])"
proof (intro conjI impI)
  assume "decode h d S buf off = Inl e"
  then show "(structs d S = None \<and> e = UnknownStruct S)
      \<or> (structs d S \<noteq> None \<and> e = DataViewRangeError)"
    by (auto simp: decode_def split: option.splits sum.splits dest: decode_fields_error)
next
  assume "decode_scalar h d st f buf' pos = Some (Inl e')"
  then show "e' = DataViewRangeError" "cut_short f buf' pos"
    using decode_scalar_error by blast+
next
  assume a: "structs d S \<noteq> None \<and> int (length buf) \<le> off"
  then obtain st' where s: "structs d S = Some st'" by auto
  have "decode_fields h d st' (sfields st') buf off [] = Inr ([], off)"
    using a by (cases "sfields st'") simp_all
  then show "decode h d S buf off = Inr []"
    using s by (simp add: decode_def)
qed

theorem decode_failures_witness:
  "decode test_host test_schema ''Q'' [1, 2] 0 = Inl DataViewRangeError
   \<and> structs test_schema ''Q'' \<noteq> None
   \<and> decode_scalar test_host test_schema q_struct n_field [1, 2] 0 = Some (Inl DataViewRangeError)
   \<and> cut_short n_field [1, 2] 0
   \<and> int (length [1, 2 :: byte]) \<le> 2
   \<and> decode test_host test_schema ''Q'' [1, 2] 2 = Inr []
   \<and> decode test_host test_schema ''Z'' [1, 2] 0 = Inl (UnknownStruct ''Z'')"
proof -
  have a: "decode test_host test_schema ''Q'' [1, 2] 0 = Inl DataViewRangeError"
    by (simp add: codec_defs instance_defs)
  have b: "decode_scalar test_host test_schema q_struct n_field [1, 2] 0
      = Some (Inl DataViewRangeError)"
    by (simp add: codec_defs instance_defs)
  have c: "structs test_schema ''Q'' \<noteq> None" "int (length [1, 2 :: byte]) \<le> 2"
    by (simp_all add: test_schema_def)
  have z: "decode test_host test_schema ''Z'' [1, 2] 0 = Inl (UnknownStruct ''Z'')"
    by (simp add: codec_defs instance_defs)
  show ?thesis
    using decode_failures [of test_host test_schema "''Q''" "[1, 2]" 0 DataViewRangeError
        q_struct n_field "[1, 2]" 0 DataViewRangeError]
      decode_failures [of test_host test_schema "''Q''" "[1, 2]" 2]
      a b c z
    by simp
qed

section \<open>Reading back what was written\<close>

subsection \<open>Variable-length integers\<close>





















subsection \<open>Scalar fields\<close>











subsection \<open>Struct values\<close>











section \<open>Compiled schemas\<close>

















section \<open>Trailing bytes\<close>









section \<open>Round trip\<close>











end
